theory Spec2Isabelle
  imports Complex_Main "HOL-Library.Char_ord" "HOL-Library.List_Lexorder"
begin

section \<open>Python values shared by the scrapers\<close>

text \<open>
  Text is modelled as \<open>string\<close> (a list of 8-bit characters); the scrapers' strings are
  treated as ASCII. The exceptions that the modelled functions can meet are values.
\<close>

datatype py_error = ZeroDivisionError | ValueError | TypeError

text \<open>Python's \<open>xs[start:end]\<close> for non-negative bounds.\<close>

definition py_slice :: "'a list \<Rightarrow> nat \<Rightarrow> nat \<Rightarrow> 'a list" where
  "py_slice xs start end = take (end - start) (drop start xs)"

section \<open>Work distribution: \<open>scrape_booking_properties\<close> (multi_thread_booking_scraper.py)\<close>

text \<open>
  \<^verbatim>\<open>
  chunk_size = len(property_urls) // num_threads
  url_chunks = []
  for i in range(num_threads):
      start = i * chunk_size
      end = len(property_urls) if i == num_threads - 1 else start + chunk_size
      if start < len(property_urls):
          url_chunks.append(property_urls[start:end])
  \<close>
  \<open>chunk_step\<close> is one pass of the loop body; \<open>url_chunks\<close> runs it over
  \<open>range(num_threads)\<close>. A worker count of zero raises in the division; a negative one
  gives an empty range.
\<close>

definition chunk_step :: "'a list \<Rightarrow> nat \<Rightarrow> nat \<Rightarrow> nat \<Rightarrow> 'a list list \<Rightarrow> 'a list list" where
  "chunk_step property_urls num_threads chunk_size i acc =
     (let start = i * chunk_size;
          end = (if i = num_threads - 1 then length property_urls else start + chunk_size)
      in if start < length property_urls
         then acc @ [py_slice property_urls start end]
         else acc)"

definition url_chunks :: "'a list \<Rightarrow> int \<Rightarrow> py_error + 'a list list" where
  "url_chunks property_urls num_threads =
     (if num_threads = 0 then Inl ZeroDivisionError
      else let n = nat num_threads;
               chunk_size = length property_urls div n
           in Inr (fold (chunk_step property_urls n chunk_size) [0..<n] []))"

section \<open>Numbers read from text\<close>

text \<open>
  \<open>py_float\<close> models Python's \<open>float(x)\<close> on the arguments the scrapers pass: \<open>None\<close>
  (a \<open>TypeError\<close>), a number (returned as it is) and text. The conversion of text is
  the built-in's, not the repository's, so it is the parameter \<open>text_to_float\<close>, with
  \<open>None\<close> where Python raises \<open>ValueError\<close>. \<open>parse_float\<close> is that conversion on plain
  decimal text: surrounding whitespace, an optional sign and decimal digits with at most
  one point (at least one digit). This is all that \<open>normalize_price\<close> can pass, since
  its pattern \<open>[^\d.,]\<close> leaves digits and separators only. A value is the exact decimal
  as a rational; Python rounds it to the nearest double, which is not modelled, and
  \<open>inf\<close> and \<open>nan\<close> are no values here.
\<close>

datatype pyarg = PyNone | PyFloat rat | PyStr string

definition is_digit :: "char \<Rightarrow> bool" where
  "is_digit c = (CHR ''0'' \<le> c \<and> c \<le> CHR ''9'')"

definition is_space :: "char \<Rightarrow> bool" where
  "is_space c = (c \<in> set [CHR '' '', CHR 0x09, CHR 0x0A, CHR 0x0B, CHR 0x0C, CHR 0x0D,
                             CHR 0x1C, CHR 0x1D, CHR 0x1E, CHR 0x1F])"

text \<open>\<open>s.strip()\<close>: whitespace removed at both ends.\<close>

definition py_strip :: "string \<Rightarrow> string" where
  "py_strip s = rev (dropWhile is_space (rev (dropWhile is_space s)))"

definition digit_val :: "char \<Rightarrow> nat" where
  "digit_val c = of_char c - 48"

definition digits_val :: "string \<Rightarrow> nat" where
  "digits_val ds = fold (\<lambda>c acc. 10 * acc + digit_val c) ds 0"

definition parse_unsigned :: "string \<Rightarrow> rat option" where
  "parse_unsigned s =
     (let ip = takeWhile (\<lambda>c. c \<noteq> CHR ''.'') s
      in case dropWhile (\<lambda>c. c \<noteq> CHR ''.'') s of
           [] \<Rightarrow> (if ip \<noteq> [] \<and> list_all is_digit ip
                  then Some (of_nat (digits_val ip)) else None)
         | _ # fp \<Rightarrow> (if list_all is_digit ip \<and> list_all is_digit fp \<and> ip @ fp \<noteq> []
                      then Some (of_nat (digits_val (ip @ fp)) / 10 ^ length fp)
                      else None))"

definition parse_float :: "string \<Rightarrow> rat option" where
  "parse_float s =
     (case py_strip s of
        [] \<Rightarrow> None
      | c # cs \<Rightarrow> (if c = CHR ''-'' then map_option uminus (parse_unsigned cs)
                   else if c = CHR ''+'' then parse_unsigned cs
                   else parse_unsigned (c # cs)))"

definition py_float :: "(string \<Rightarrow> rat option) \<Rightarrow> pyarg \<Rightarrow> py_error + rat" where
  "py_float text_to_float x =
     (case x of
        PyNone \<Rightarrow> Inl TypeError
      | PyFloat r \<Rightarrow> Inr r
      | PyStr s \<Rightarrow> (case text_to_float s of None \<Rightarrow> Inl ValueError | Some r \<Rightarrow> Inr r))"

section \<open>\<open>DataValidator\<close> (booking/scraping_all_booking_with_categories.py)\<close>

text \<open>
  \<^verbatim>\<open>
  def normalize_price(price_text: str) -> Optional[float]:
      if not price_text:
          return None
      price_clean = re.sub(r'[^\d.,]', '', price_text.replace(' ', ''))
      if ',' in price_clean and '.' in price_clean:
          price_clean = price_clean.replace(',', '')
      elif ',' in price_clean:
          price_clean = price_clean.replace(',', '.')
      try:
          return float(price_clean)
      except ValueError:
          return None
  \<close>
  The argument is \<open>None\<close> or text. Only \<open>ValueError\<close> is caught; any other error of the
  conversion would leave the function.
\<close>

definition strip_non_price :: "string \<Rightarrow> string" where
  "strip_non_price t =
     filter (\<lambda>c. is_digit c \<or> c = CHR ''.'' \<or> c = CHR '','') (filter (\<lambda>c. c \<noteq> CHR '' '') t)"

definition fix_separators :: "string \<Rightarrow> string" where
  "fix_separators price_clean =
     (if CHR '','' \<in> set price_clean \<and> CHR ''.'' \<in> set price_clean
      then filter (\<lambda>c. c \<noteq> CHR '','') price_clean
      else if CHR '','' \<in> set price_clean
      then map (\<lambda>c. if c = CHR '','' then CHR ''.'' else c) price_clean
      else price_clean)"

definition normalize_price :: "string option \<Rightarrow> py_error + rat option" where
  "normalize_price price_text =
     (case price_text of
        None \<Rightarrow> Inr None
      | Some t \<Rightarrow>
          if t = [] then Inr None
          else (case py_float parse_float (PyStr (fix_separators (strip_non_price t))) of
                  Inr v \<Rightarrow> Inr (Some v)
                | Inl e \<Rightarrow> if e = ValueError then Inr None else Inl e))"

text \<open>
  \<^verbatim>\<open>
  def validate_coordinates(lat: str, lng: str) -> tuple:
      try:
          lat_float = float(lat)
          lng_float = float(lng)
          if -90 <= lat_float <= 90 and -180 <= lng_float <= 180:
              return lat_float, lng_float
      except (ValueError, TypeError):
          pass
      return None, None
  \<close>
  \<open>float\<close> on text is the parameter \<open>text_to_float\<close>; \<open>caught_by_validate\<close> is the
  \<open>except\<close> clause.
\<close>

definition caught_by_validate :: "py_error \<Rightarrow> py_error + rat option \<times> rat option" where
  "caught_by_validate e = (if e = ValueError \<or> e = TypeError then Inr (None, None) else Inl e)"

definition validate_coordinates ::
  "(string \<Rightarrow> rat option) \<Rightarrow> pyarg \<Rightarrow> pyarg \<Rightarrow> py_error + rat option \<times> rat option" where
  "validate_coordinates text_to_float lat lng =
     (case py_float text_to_float lat of
        Inl e \<Rightarrow> caught_by_validate e
      | Inr lat_float \<Rightarrow>
          (case py_float text_to_float lng of
             Inl e \<Rightarrow> caught_by_validate e
           | Inr lng_float \<Rightarrow>
               if - 90 \<le> lat_float \<and> lat_float \<le> 90 \<and> - 180 \<le> lng_float \<and> lng_float \<le> 180
               then Inr (Some lat_float, Some lng_float)
               else Inr (None, None)))"

text \<open>
  The values a field of a scraped record can hold, with Python's truth test: \<open>None\<close>,
  empty text, zero, \<open>False\<close> and the empty list are false; everything else is true.
  A dictionary \<open>Dict[str, Any]\<close> is a map from keys to such values, and \<open>data.get(k)\<close>
  gives \<open>None\<close> for a missing key.
\<close>

datatype pyval = VNone | VStr string | VFloat rat | VInt int | VBool bool | VList "string list"

fun truthy :: "pyval \<Rightarrow> bool" where
  "truthy VNone = False"
| "truthy (VStr s) = (s \<noteq> [])"
| "truthy (VFloat r) = (r \<noteq> 0)"
| "truthy (VInt i) = (i \<noteq> 0)"
| "truthy (VBool b) = b"
| "truthy (VList l) = (l \<noteq> [])"

definition py_get :: "(string \<rightharpoonup> pyval) \<Rightarrow> string \<Rightarrow> pyval" where
  "py_get data k = (case data k of None \<Rightarrow> VNone | Some v \<Rightarrow> v)"

text \<open>
  \<^verbatim>\<open>
  def validate_apartment_data(data: Dict[str, Any]) -> bool:
      if not data.get('title'):
          return False
      required_fields = ['price_per_night', 'address', 'zone']
      if not any(data.get(field) for field in required_fields):
          return False
      return True
  \<close>
\<close>

definition required_fields :: "string list" where
  "required_fields = [''price_per_night'', ''address'', ''zone'']"

definition validate_apartment_data :: "(string \<rightharpoonup> pyval) \<Rightarrow> bool" where
  "validate_apartment_data data =
     (if \<not> truthy (py_get data ''title'') then False
      else if \<not> list_ex (\<lambda>field. truthy (py_get data field)) required_fields then False
      else True)"

text \<open>
  The dataclass \<open>ApartmentData\<close> and \<open>dataclasses.asdict\<close>, which is how
  \<open>_scrape_single_listing\<close> hands a record to the validator. The field \<open>id\<close> of the
  source is \<open>apt_id\<close> here.
\<close>

record apartment_data =
  apt_id :: int
  title :: string
  city :: string
  price_per_night :: "rat option"
  address :: "string option"
  zone :: "string option"
  latitude :: "rat option"
  longitude :: "rat option"
  bedrooms :: "int option"
  kitchens :: "int option"
  surface_m2 :: "int option"
  wifi :: bool
  rating :: "rat option"
  review_count :: "int option"
  amenities :: "string list"
  url :: string
  scraped_at :: string

definition opt_val :: "('a \<Rightarrow> pyval) \<Rightarrow> 'a option \<Rightarrow> pyval" where
  "opt_val f x = (case x of None \<Rightarrow> VNone | Some v \<Rightarrow> f v)"

definition asdict :: "apartment_data \<Rightarrow> (string \<rightharpoonup> pyval)" where
  "asdict r = map_of
     [(''id'', VInt (apt_id r)),
      (''title'', VStr (title r)),
      (''city'', VStr (city r)),
      (''price_per_night'', opt_val VFloat (price_per_night r)),
      (''address'', opt_val VStr (address r)),
      (''zone'', opt_val VStr (zone r)),
      (''latitude'', opt_val VFloat (latitude r)),
      (''longitude'', opt_val VFloat (longitude r)),
      (''bedrooms'', opt_val VInt (bedrooms r)),
      (''kitchens'', opt_val VInt (kitchens r)),
      (''surface_m2'', opt_val VInt (surface_m2 r)),
      (''wifi'', VBool (wifi r)),
      (''rating'', opt_val VFloat (rating r)),
      (''review_count'', opt_val VInt (review_count r)),
      (''amenities'', VList (amenities r)),
      (''url'', VStr (url r)),
      (''scraped_at'', VStr (scraped_at r))]"

text \<open>A listing with a title whose only substance field is a price of zero.\<close>

definition zero_price_listing :: apartment_data where
  "zero_price_listing =
     \<lparr>apt_id = 1, title = ''Flat'', city = '''', price_per_night = Some 0, address = None,
      zone = None, latitude = None, longitude = None, bedrooms = None, kitchens = None,
      surface_m2 = None, wifi = False, rating = None, review_count = None, amenities = [],
      url = ''https://www.booking.com/hotel/ma/flat.html'', scraped_at = ''2024-01-01T00:00:00''\<rparr>"

section \<open>\<open>GeocodeService.extract_zone\<close> (booking/scraping_all_booking_with_categories.py)\<close>

text \<open>
  \<open>split_on c s\<close> is \<open>s.split(c)\<close> for a one-character separator, \<open>py_in sub s\<close> is
  \<open>sub in s\<close> on text, and \<open>py_index xs v\<close> is \<open>xs.index(v)\<close>, with \<open>None\<close> where Python
  raises \<open>ValueError\<close>.
\<close>

fun split_on :: "char \<Rightarrow> string \<Rightarrow> string list" where
  "split_on c [] = [[]]"
| "split_on c (x # xs) =
     (if x = c then [] # split_on c xs
      else (case split_on c xs of
              [] \<Rightarrow> [[x]]
            | p # ps \<Rightarrow> (x # p) # ps))"

fun starts_with :: "string \<Rightarrow> string \<Rightarrow> bool" where
  "starts_with s [] = True"
| "starts_with [] (p # ps) = False"
| "starts_with (x # xs) (p # ps) = (x = p \<and> starts_with xs ps)"

fun py_in :: "string \<Rightarrow> string \<Rightarrow> bool" where
  "py_in sub [] = (sub = [])"
| "py_in sub (x # xs) = (starts_with (x # xs) sub \<or> py_in sub xs)"

fun py_index :: "'a list \<Rightarrow> 'a \<Rightarrow> nat option" where
  "py_index [] v = None"
| "py_index (x # xs) v = (if x = v then Some 0 else map_option Suc (py_index xs v))"

text \<open>
  \<^verbatim>\<open>
  def extract_zone(address: str) -> str:
      if not address:
          return "Unknown"
      parts = [p.strip() for p in address.split(",")]
      arrondissement = None
      quartier = None
      for part in parts:
          if "Arrondissement" in part or "District" in part:
              arrondissement = part
              break
      if arrondissement:
          index = parts.index(arrondissement)
          if index > 0:
              quartier = parts[index - 1]
      if arrondissement and quartier:
          return f"{quartier.strip()} - {arrondissement.strip()}"
      elif arrondissement:
          return arrondissement.strip()
      else:
          return "Unknown"
  \<close>
  \<open>None\<close> for \<open>arrondissement\<close> and \<open>quartier\<close> is \<open>None\<close> of the option type; the truth
  test of an optional text is \<open>text_truthy\<close>. The argument \<open>address\<close> is \<open>addr\<close> here.
\<close>

definition is_district_part :: "string \<Rightarrow> bool" where
  "is_district_part part = (py_in ''Arrondissement'' part \<or> py_in ''District'' part)"

definition text_truthy :: "string option \<Rightarrow> bool" where
  "text_truthy x = (case x of None \<Rightarrow> False | Some s \<Rightarrow> s \<noteq> [])"

definition zone_parts :: "string \<Rightarrow> string list" where
  "zone_parts addr = map py_strip (split_on (CHR '','') addr)"

definition find_quartier :: "string list \<Rightarrow> string option \<Rightarrow> py_error + string option" where
  "find_quartier parts arrondissement =
     (if text_truthy arrondissement
      then (case py_index parts (the arrondissement) of
              None \<Rightarrow> Inl ValueError
            | Some index \<Rightarrow> Inr (if index > 0 then Some (parts ! (index - 1)) else None))
      else Inr None)"

definition extract_zone :: "string option \<Rightarrow> py_error + string" where
  "extract_zone addr =
     (if \<not> text_truthy addr then Inr ''Unknown''
      else let parts = zone_parts (the addr);
               arrondissement = find is_district_part parts
           in case find_quartier parts arrondissement of
                Inl e \<Rightarrow> Inl e
              | Inr quartier \<Rightarrow>
                  if text_truthy arrondissement \<and> text_truthy quartier
                  then Inr (py_strip (the quartier) @ '' - '' @ py_strip (the arrondissement))
                  else if text_truthy arrondissement then Inr (py_strip (the arrondissement))
                  else Inr ''Unknown'')"

section \<open>Fallback extraction: \<open>_extract_price\<close> and the review selectors\<close>






section \<open>URL discovery: \<open>scrape_property_urls\<close> and \<open>_load_all_listings\<close>\<close>














section \<open>The shared CSV store: \<open>save_to_csv\<close> (multi_thread_booking_scraper.py)\<close>













section \<open>The worker: \<open>worker_thread\<close> (multi_thread_booking_scraper.py)\<close>








section \<open>Properties of the work distribution\<close>

lemma fold_chunk_step_all:
  assumes "\<forall>i\<in>set js. i * cs < length xs"
  shows "fold (chunk_step xs n cs) js acc =
         acc @ map (\<lambda>i. py_slice xs (i * cs) (if i = n - 1 then length xs else i * cs + cs)) js"
  using assms by (induction js arbitrary: acc) (simp_all add: chunk_step_def Let_def)

lemma concat_even_slices:
  "concat (map (\<lambda>i. take cs (drop (i * cs) xs)) [0..<k]) = take (k * cs) xs"
proof (induction k)
  case 0
  show ?case by simp
next
  case (Suc k)
  have "take (k * cs) xs @ take cs (drop (k * cs) xs) = take (k * cs + cs) xs"
    by (simp add: take_add)
  with Suc show ?case by (simp add: add.commute)
qed

lemma chunk_start_in_range:
  assumes "1 \<le> n" "n \<le> m" "i < n"
  shows "i * (m div n) < (m::nat)"
proof -
  have pos: "1 \<le> m div n" using assms(1,2) by (simp add: div_greater_zero_iff Suc_le_eq)
  have "i * (m div n) + (m div n) \<le> n * (m div n)"
  proof -
    have "Suc i \<le> n" using assms(3) by simp
    then have "Suc i * (m div n) \<le> n * (m div n)" by (rule mult_le_mono1)
    then show ?thesis by (simp add: add.commute)
  qed
  also have "\<dots> \<le> m" by simp
  finally show ?thesis using pos by linarith
qed

lemma url_chunks_explicit:
  assumes "1 \<le> n" "n \<le> length xs"
  shows "url_chunks xs (int n) =
         Inr (map (\<lambda>i. take (length xs div n) (drop (i * (length xs div n)) xs)) [0..<n - 1]
              @ [drop ((n - 1) * (length xs div n)) xs])"
proof -
  let ?cs = "length xs div n"
  have "\<forall>i\<in>set [0..<n]. i * ?cs < length xs"
    using chunk_start_in_range [OF assms] by simp
  then have f: "fold (chunk_step xs n ?cs) [0..<n] [] =
      map (\<lambda>i. py_slice xs (i * ?cs) (if i = n - 1 then length xs else i * ?cs + ?cs)) [0..<n]"
    using fold_chunk_step_all [of "[0..<n]" ?cs xs n "[]"] by simp
  have split: "[0..<n] = [0..<n - 1] @ [n - 1]"
    using assms(1) upt_Suc_append [of 0 "n - 1"] by simp
  have "map (\<lambda>i. py_slice xs (i * ?cs) (if i = n - 1 then length xs else i * ?cs + ?cs)) [0..<n]
        = map (\<lambda>i. take ?cs (drop (i * ?cs) xs)) [0..<n - 1] @ [drop ((n - 1) * ?cs) xs]"
    by (subst split) (simp add: py_slice_def)
  with f show ?thesis using assms(1) by (simp add: url_chunks_def)
qed

text \<open>
  C2. For a URL list of size \<open>m\<close> and a worker count \<open>n\<close> with \<open>1 \<le> n \<le> m\<close>, the
  chunking step returns chunks whose concatenation is the input list (every URL exactly
  once, in order), there are \<open>min n m\<close> chunks, workers \<open>0..n-2\<close> get \<open>m div n\<close> URLs
  each, worker \<open>n-1\<close> gets the remaining \<open>m - (n-1) * (m div n)\<close>, and for a
  duplicate-free list the chunks are pairwise disjoint.
\<close>

theorem url_chunks_partition:
  assumes "1 \<le> n" "n \<le> length urls"
  shows "\<exists>chunks. url_chunks urls (int n) = Inr chunks
           \<and> concat chunks = urls
           \<and> length chunks = min n (length urls)
           \<and> (\<forall>i<n - 1. length (chunks ! i) = length urls div n)
           \<and> length (chunks ! (n - 1)) = length urls - (n - 1) * (length urls div n)
           \<and> (distinct urls \<longrightarrow>
                (\<forall>i<n. \<forall>j<n. i \<noteq> j \<longrightarrow> set (chunks ! i) \<inter> set (chunks ! j) = {}))"
proof -
  let ?m = "length urls"
  let ?cs = "?m div n"
  let ?front = "map (\<lambda>i. take ?cs (drop (i * ?cs) urls)) [0..<n - 1]"
  let ?chunks = "?front @ [drop ((n - 1) * ?cs) urls]"
  have eq: "url_chunks urls (int n) = Inr ?chunks"
    by (rule url_chunks_explicit [OF assms])
  have cat: "concat ?chunks = urls"
    by (simp add: concat_even_slices)
  have len: "length ?chunks = min n ?m"
    using assms by simp
  have bound: "\<And>i. i < n \<Longrightarrow> i * ?cs < ?m"
    using chunk_start_in_range [OF assms] by simp
  have pos: "1 \<le> ?cs"
    using assms by (simp add: div_greater_zero_iff Suc_le_eq)
  have sizes: "\<forall>i<n - 1. length (?chunks ! i) = ?cs"
  proof (intro allI impI)
    fix i assume i: "i < n - 1"
    have "Suc i < n" using i by simp
    then have "Suc i * ?cs < ?m \<or> Suc i * ?cs \<le> ?m"
      using bound by blast
    then have "i * ?cs + ?cs \<le> ?m" by (auto simp: add.commute)
    then show "length (?chunks ! i) = ?cs"
      using i by (simp add: nth_append)
  qed
  have lastlen: "length (?chunks ! (n - 1)) = ?m - (n - 1) * ?cs"
    by (simp add: nth_append)
  have nonempty: "\<forall>c\<in>set ?chunks. c \<noteq> []"
  proof
    fix c assume "c \<in> set ?chunks"
    then obtain i where i: "i < length ?chunks" and c: "c = ?chunks ! i"
      unfolding in_set_conv_nth by blast
    have "i < n" using i assms(1) by simp
    show "c \<noteq> []"
    proof (cases "i < n - 1")
      case True
      with sizes c pos show ?thesis by (metis length_0_conv not_one_le_zero)
    next
      case False
      with \<open>i < n\<close> have "i = n - 1" by simp
      moreover have "(n - 1) * ?cs < ?m" using bound [of "n - 1"] assms(1) by simp
      ultimately show ?thesis using c lastlen by auto
    qed
  qed
  have disj: "distinct urls \<longrightarrow>
      (\<forall>i<n. \<forall>j<n. i \<noteq> j \<longrightarrow> set (?chunks ! i) \<inter> set (?chunks ! j) = {})"
  proof (intro impI allI)
    fix i j
    assume d: "distinct urls" and i: "i < n" and j: "j < n" and ne: "i \<noteq> j"
    from d cat have dc: "distinct (concat ?chunks)" by simp
    have "removeAll [] ?chunks = ?chunks"
      using nonempty by (intro removeAll_id) auto
    with dc have dch: "distinct ?chunks"
      by (simp only: distinct_concat_iff)
    have li: "i < length ?chunks" and lj: "j < length ?chunks"
      using i j assms(1) by simp_all
    have "?chunks ! i \<noteq> ?chunks ! j"
      using dch li lj ne by (simp add: nth_eq_iff_index_eq)
    moreover have "?chunks ! i \<in> set ?chunks" "?chunks ! j \<in> set ?chunks"
      using li lj nth_mem by blast+
    ultimately show "set (?chunks ! i) \<inter> set (?chunks ! j) = {}"
      using dc by (simp only: distinct_concat_iff) blast
  qed
  from eq cat len sizes lastlen disj show ?thesis by blast
qed

theorem url_chunks_partition_witness:
  "(1::nat) \<le> 2 \<and> 2 \<le> length [''a'', ''b'', ''c'', ''d'', ''e'']
   \<and> distinct [''a'', ''b'', ''c'', ''d'', ''e'']
   \<and> url_chunks [''a'', ''b'', ''c'', ''d'', ''e''] 2 = Inr [[''a'', ''b''], [''c'', ''d'', ''e'']]
   \<and> set [''a'', ''b''] \<inter> set [''c'', ''d'', ''e''] = {}"
proof -
  have h1: "(1::nat) \<le> 2" by simp
  have h2: "(2::nat) \<le> length [''a'', ''b'', ''c'', ''d'', ''e'']" by simp
  have ev: "url_chunks [''a'', ''b'', ''c'', ''d'', ''e''] 2 = Inr [[''a'', ''b''], [''c'', ''d'', ''e'']]"
    by (simp add: url_chunks_def chunk_step_def py_slice_def Let_def upt_conv_Cons)
  from url_chunks_partition [OF h1 h2] ev show ?thesis by simp
qed

section \<open>Properties of \<open>DataValidator\<close>\<close>

lemmas float_eval = py_float_def parse_float_def py_strip_def is_space_def parse_unsigned_def
  is_digit_def digits_val_def digit_val_def

lemma py_float_error_kind: "py_float conv x = Inl e \<Longrightarrow> e = ValueError \<or> e = TypeError"
  by (auto simp: py_float_def split: pyarg.splits option.splits)

lemma strip_non_price_filter:
  "strip_non_price t = filter (\<lambda>c. is_digit c \<or> c = CHR '','' \<or> c = CHR ''.'') t"
  by (induction t) (auto simp: strip_non_price_def is_digit_def)

lemma normalize_price_value:
  "t \<noteq> [] \<Longrightarrow> normalize_price (Some t) = Inr (parse_float (fix_separators (strip_non_price t)))"
  by (simp add: normalize_price_def py_float_def split: option.splits)

text \<open>
  C7. Normalising currency-like text keeps only digits, \<open>,\<close> and \<open>.\<close>; when both
  separators occur the commas are dropped, when only \<open>,\<close> occurs it becomes the decimal
  point; the function never raises and gives the unknown value \<open>None\<close> when the text
  does not parse: \<open>"1,234.56"\<close> and \<open>"1234,56"\<close> give 1234.56, \<open>"abc"\<close> gives \<open>None\<close>.
\<close>

theorem normalize_price_spec:
  "(let c = filter (\<lambda>x. is_digit x \<or> x = CHR '','' \<or> x = CHR ''.'') t in
      (t \<noteq> [] \<and> CHR '','' \<in> set c \<and> CHR ''.'' \<in> set c \<longrightarrow>
         normalize_price (Some t) = Inr (parse_float (filter (\<lambda>x. x \<noteq> CHR '','') c)))
    \<and> (t \<noteq> [] \<and> CHR '','' \<in> set c \<and> CHR ''.'' \<notin> set c \<longrightarrow>
         normalize_price (Some t) =
           Inr (parse_float (map (\<lambda>x. if x = CHR '','' then CHR ''.'' else x) c)))
    \<and> (t \<noteq> [] \<and> CHR '','' \<notin> set c \<longrightarrow> normalize_price (Some t) = Inr (parse_float c)))
   \<and> (\<exists>r. normalize_price p = Inr r)
   \<and> normalize_price None = Inr None
   \<and> normalize_price (Some '''') = Inr None
   \<and> normalize_price (Some ''1,234.56'') = Inr (Some 1234.56)
   \<and> normalize_price (Some ''1234,56'') = Inr (Some 1234.56)
   \<and> normalize_price (Some ''abc'') = Inr None"
proof -
  have total: "\<exists>r. normalize_price p = Inr r"
  proof (cases p)
    case None
    then show ?thesis by (simp add: normalize_price_def)
  next
    case (Some t)
    show ?thesis
    proof (cases "t = []")
      case True
      with Some show ?thesis by (simp add: normalize_price_def)
    next
      case False
      with Some show ?thesis by (simp add: normalize_price_value)
    qed
  qed
  have e1: "normalize_price (Some ''1,234.56'') = Inr (Some 1234.56)"
    by (simp add: normalize_price_def strip_non_price_def fix_separators_def float_eval)
  have e2: "normalize_price (Some ''1234,56'') = Inr (Some 1234.56)"
    by (simp add: normalize_price_def strip_non_price_def fix_separators_def float_eval)
  have e3: "normalize_price (Some ''abc'') = Inr None"
    by (simp add: normalize_price_def strip_non_price_def fix_separators_def float_eval)
  have e0: "normalize_price None = Inr None" "normalize_price (Some '''') = Inr None"
    by (simp_all add: normalize_price_def)
  have gen: "t \<noteq> [] \<Longrightarrow> normalize_price (Some t) =
      Inr (parse_float (fix_separators (filter (\<lambda>x. is_digit x \<or> x = CHR '','' \<or> x = CHR ''.'') t)))"
    by (simp add: normalize_price_value strip_non_price_filter)
  show ?thesis
    unfolding Let_def using total e0 e1 e2 e3 gen by (simp add: fix_separators_def)
qed

theorem normalize_price_spec_witness:
  "''1,5.2'' \<noteq> [] \<and> normalize_price (Some ''1,5.2'') = Inr (Some 15.2)
   \<and> normalize_price (Some ''EUR 7,5'') = Inr (Some 7.5)
   \<and> normalize_price (Some ''12 MAD'') = Inr (Some 12)"
  using normalize_price_spec [of "''1,5.2''"] normalize_price_spec [of "''EUR 7,5''"]
    normalize_price_spec [of "''12 MAD''"]
  by (simp add: Let_def float_eval)

text \<open>
  C6. A coordinate pair is returned, converted and otherwise unchanged, exactly when both
  components convert to numbers with latitude in [-90, 90] and longitude in [-180, 180];
  in every other case the result is \<open>(None, None)\<close>, so never one component alone:
  (91, 10) gives \<open>(None, None)\<close> and (45.5, -73.6) is returned as it is.
\<close>

theorem validate_coordinates_spec:
  "(\<forall>a b. py_float conv lat = Inr a \<and> py_float conv lng = Inr b
           \<and> - 90 \<le> a \<and> a \<le> 90 \<and> - 180 \<le> b \<and> b \<le> 180
           \<longrightarrow> validate_coordinates conv lat lng = Inr (Some a, Some b))
   \<and> (\<not> (\<exists>a b. py_float conv lat = Inr a \<and> py_float conv lng = Inr b
           \<and> - 90 \<le> a \<and> a \<le> 90 \<and> - 180 \<le> b \<and> b \<le> 180)
           \<longrightarrow> validate_coordinates conv lat lng = Inr (None, None))
   \<and> validate_coordinates conv (PyFloat 91) (PyFloat 10) = Inr (None, None)
   \<and> validate_coordinates conv (PyFloat 45.5) (PyFloat (- 73.6)) = Inr (Some 45.5, Some (- 73.6))"
proof -
  have acc: "\<forall>a b. py_float conv lat = Inr a \<and> py_float conv lng = Inr b
           \<and> - 90 \<le> a \<and> a \<le> 90 \<and> - 180 \<le> b \<and> b \<le> 180
           \<longrightarrow> validate_coordinates conv lat lng = Inr (Some a, Some b)"
    by (simp add: validate_coordinates_def)
  have rej: "\<not> (\<exists>a b. py_float conv lat = Inr a \<and> py_float conv lng = Inr b
           \<and> - 90 \<le> a \<and> a \<le> 90 \<and> - 180 \<le> b \<and> b \<le> 180)
           \<longrightarrow> validate_coordinates conv lat lng = Inr (None, None)"
  proof
    assume n: "\<not> (\<exists>a b. py_float conv lat = Inr a \<and> py_float conv lng = Inr b
           \<and> - 90 \<le> a \<and> a \<le> 90 \<and> - 180 \<le> b \<and> b \<le> 180)"
    show "validate_coordinates conv lat lng = Inr (None, None)"
    proof (cases "py_float conv lat")
      case (Inl e)
      then show ?thesis
        using py_float_error_kind [OF Inl] by (auto simp: validate_coordinates_def caught_by_validate_def)
    next
      case lat: (Inr a)
      show ?thesis
      proof (cases "py_float conv lng")
        case (Inl e)
        then show ?thesis
          using lat py_float_error_kind [OF Inl]
          by (auto simp: validate_coordinates_def caught_by_validate_def)
      next
        case (Inr b)
        with lat n show ?thesis by (auto simp: validate_coordinates_def)
      qed
    qed
  qed
  have e1: "validate_coordinates conv (PyFloat 91) (PyFloat 10) = Inr (None, None)"
    by (simp add: validate_coordinates_def py_float_def)
  have e2: "validate_coordinates conv (PyFloat 45.5) (PyFloat (- 73.6)) = Inr (Some 45.5, Some (- 73.6))"
    by (simp add: validate_coordinates_def py_float_def)
  from acc rej e1 e2 show ?thesis by blast
qed

theorem validate_coordinates_spec_witness:
  "py_float parse_float (PyStr ''45.5'') = Inr 45.5 \<and> py_float parse_float (PyStr ''-73.6'') = Inr (- 73.6)
   \<and> validate_coordinates parse_float (PyStr ''45.5'') (PyStr ''-73.6'') = Inr (Some 45.5, Some (- 73.6))
   \<and> py_float parse_float (PyStr ''91'') = Inr 91
   \<and> validate_coordinates parse_float (PyStr ''91'') (PyStr ''10'') = Inr (None, None)
   \<and> validate_coordinates parse_float (PyStr ''12'') (PyStr ''x'') = Inr (None, None)"
proof -
  have a: "py_float parse_float (PyStr ''45.5'') = Inr 45.5" by (simp add: float_eval)
  have b: "py_float parse_float (PyStr ''-73.6'') = Inr (- 73.6)" by (simp add: float_eval)
  have c: "py_float parse_float (PyStr ''91'') = Inr 91" by (simp add: float_eval)
  have d: "py_float parse_float (PyStr ''10'') = Inr 10" by (simp add: float_eval)
  have e: "py_float parse_float (PyStr ''x'') = Inl ValueError" by (simp add: float_eval)
  have f: "py_float parse_float (PyStr ''12'') = Inr 12" by (simp add: float_eval)
  show ?thesis
    using validate_coordinates_spec [of parse_float "PyStr ''45.5''" "PyStr ''-73.6''"]
      validate_coordinates_spec [of parse_float "PyStr ''91''" "PyStr ''10''"]
      validate_coordinates_spec [of parse_float "PyStr ''12''" "PyStr ''x''"]
    by (simp add: a b c d e f)
qed

section \<open>Properties of the quality gate\<close>

lemma py_get_asdict:
  "py_get (asdict r) ''title'' = VStr (title r)"
  "py_get (asdict r) ''price_per_night'' = opt_val VFloat (price_per_night r)"
  "py_get (asdict r) ''address'' = opt_val VStr (address r)"
  "py_get (asdict r) ''zone'' = opt_val VStr (zone r)"
  by (simp_all add: py_get_def asdict_def)

lemma validate_apartment_data_iff:
  "validate_apartment_data data \<longleftrightarrow>
     truthy (py_get data ''title'')
     \<and> (truthy (py_get data ''price_per_night'') \<or> truthy (py_get data ''address'')
        \<or> truthy (py_get data ''zone''))"
  by (simp add: validate_apartment_data_def required_fields_def)

lemma truthy_opt_val:
  "truthy (opt_val VFloat p) \<longleftrightarrow> (\<exists>v. p = Some v \<and> v \<noteq> 0)"
  "truthy (opt_val VStr s) \<longleftrightarrow> (\<exists>v. s = Some v \<and> v \<noteq> [])"
  by (cases p; simp add: opt_val_def) (cases s; simp add: opt_val_def)

text \<open>
  C5, as stated, fails: a record with a title whose price field holds the value 0 and
  whose address and zone are absent is rejected, although one substance field holds a
  value.
\<close>

theorem validate_zero_price_counterexample:
  "title zero_price_listing \<noteq> [] \<and> price_per_night zero_price_listing = Some 0
   \<and> address zero_price_listing = None \<and> zone zero_price_listing = None
   \<and> \<not> validate_apartment_data (asdict zero_price_listing)"
  by (simp add: validate_apartment_data_iff py_get_asdict opt_val_def zero_price_listing_def)

text \<open>
  C5, amended. The gate accepts a record if and only if its title is non-empty and at
  least one of price, address and zone is true in Python's sense: a price other than
  zero, a non-empty address or a non-empty zone. A price of zero counts as absent.
\<close>

theorem validate_apartment_data_gate:
  "validate_apartment_data (asdict r) \<longleftrightarrow>
      title r \<noteq> []
      \<and> ((\<exists>p. price_per_night r = Some p \<and> p \<noteq> 0)
         \<or> (\<exists>a. address r = Some a \<and> a \<noteq> [])
         \<or> (\<exists>z. zone r = Some z \<and> z \<noteq> []))"
  by (simp add: validate_apartment_data_iff py_get_asdict truthy_opt_val)

theorem validate_apartment_data_gate_witness:
  "validate_apartment_data (asdict (zero_price_listing\<lparr>price_per_night := None, address := Some ''Rue 1''\<rparr>))
   \<and> validate_apartment_data (asdict (zero_price_listing\<lparr>price_per_night := Some 80\<rparr>))
   \<and> \<not> validate_apartment_data (asdict (zero_price_listing\<lparr>price_per_night := None\<rparr>))
   \<and> \<not> validate_apartment_data (asdict (zero_price_listing\<lparr>title := [], zone := Some ''Gueliz''\<rparr>))"
  using validate_apartment_data_gate [of "zero_price_listing\<lparr>price_per_night := None, address := Some ''Rue 1''\<rparr>"]
    validate_apartment_data_gate [of "zero_price_listing\<lparr>price_per_night := Some 80\<rparr>"]
    validate_apartment_data_gate [of "zero_price_listing\<lparr>price_per_night := None\<rparr>"]
    validate_apartment_data_gate [of "zero_price_listing\<lparr>title := [], zone := Some ''Gueliz''\<rparr>"]
  by (simp add: zero_price_listing_def)

section \<open>Properties of \<open>extract_zone\<close>\<close>

lemma starts_with_set: "starts_with s p \<Longrightarrow> set p \<subseteq> set s"
  by (induction s p rule: starts_with.induct) auto

lemma py_in_set: "py_in sub s \<Longrightarrow> set sub \<subseteq> set s"
proof (induction s)
  case Nil
  then show ?case by simp
next
  case (Cons x xs)
  then show ?case using starts_with_set [of "x # xs" sub] by auto
qed

lemma district_part_not_blank:
  assumes "is_district_part p"
  shows "\<exists>c\<in>set p. \<not> is_space c"
proof -
  from assms have "CHR ''A'' \<in> set p \<or> CHR ''D'' \<in> set p"
    unfolding is_district_part_def using py_in_set by fastforce
  moreover have "\<not> is_space (CHR ''A'')" "\<not> is_space (CHR ''D'')"
    by (simp_all add: is_space_def)
  ultimately show ?thesis by blast
qed

lemma py_strip_not_blank:
  assumes "\<exists>c\<in>set s. \<not> is_space c"
  shows "py_strip s \<noteq> []"
proof -
  let ?d = "dropWhile is_space s"
  have ne: "?d \<noteq> []" using assms by simp
  then have "\<not> is_space (hd ?d)" by (rule hd_dropWhile)
  moreover have "hd ?d \<in> set (rev ?d)" using ne by simp
  ultimately have "dropWhile is_space (rev ?d) \<noteq> []"
    by auto
  then show ?thesis by (simp add: py_strip_def)
qed

lemma find_Some_mem: "find P xs = Some x \<Longrightarrow> P x \<and> x \<in> set xs"
  by (induction xs) (auto split: if_splits)

lemma py_index_mem: "v \<in> set xs \<Longrightarrow> \<exists>i. py_index xs v = Some i"
  by (induction xs) auto

lemma extract_zone_None:
  "find is_district_part (zone_parts a) = None \<Longrightarrow> extract_zone (Some a) = Inr ''Unknown''"
  by (simp add: extract_zone_def find_quartier_def text_truthy_def Let_def)

lemma extract_zone_Some:
  assumes "find is_district_part (zone_parts a) = Some arr" "a \<noteq> []" "arr \<noteq> []"
    "py_index (zone_parts a) arr = Some i"
  shows "extract_zone (Some a) =
     Inr (if 0 < i \<and> zone_parts a ! (i - 1) \<noteq> []
          then py_strip (zone_parts a ! (i - 1)) @ '' - '' @ py_strip arr
          else py_strip arr)"
  using assms by (simp add: extract_zone_def find_quartier_def text_truthy_def Let_def)

lemma extract_zone_nonempty: "\<exists>z. extract_zone addr = Inr z \<and> z \<noteq> []"
proof (cases "text_truthy addr")
  case False
  then show ?thesis by (simp add: extract_zone_def)
next
  case True
  then obtain a where a: "addr = Some a" and ane: "a \<noteq> []"
    by (cases addr) (auto simp: text_truthy_def)
  show ?thesis
  proof (cases "find is_district_part (zone_parts a)")
    case None
    then show ?thesis unfolding a by (simp add: extract_zone_None)
  next
    case (Some arr)
    from find_Some_mem [OF Some] have d: "is_district_part arr" and m: "arr \<in> set (zone_parts a)"
      by blast+
    from d have nb: "\<exists>c\<in>set arr. \<not> is_space c" by (rule district_part_not_blank)
    then have ne: "arr \<noteq> []" by auto
    from nb have sne: "py_strip arr \<noteq> []" by (rule py_strip_not_blank)
    from py_index_mem [OF m] obtain i where i: "py_index (zone_parts a) arr = Some i" ..
    show ?thesis
      unfolding a extract_zone_Some [OF Some ane ne i] using sne by simp
  qed
qed

text \<open>
  C10. For every address, \<open>None\<close> and the empty text included, \<open>extract_zone\<close> returns a
  non-empty text; it is \<open>Unknown\<close> for \<open>None\<close>, for the empty text and whenever no part of
  the address contains \<open>Arrondissement\<close> or \<open>District\<close>. A record whose zone is that
  result and whose title is non-empty is therefore accepted by \<open>validate_apartment_data\<close>,
  also when price and address are absent.
\<close>

theorem extract_zone_always_passes_gate:
  "(\<exists>z. extract_zone addr = Inr z \<and> z \<noteq> [])
   \<and> extract_zone None = Inr ''Unknown''
   \<and> extract_zone (Some '''') = Inr ''Unknown''
   \<and> ((\<exists>a. addr = Some a \<and> (\<forall>p\<in>set (zone_parts a). \<not> is_district_part p))
        \<longrightarrow> extract_zone addr = Inr ''Unknown'')
   \<and> (\<forall>z. extract_zone addr = Inr z \<and> title r \<noteq> []
        \<longrightarrow> validate_apartment_data
              (asdict (r\<lparr>price_per_night := None, address := None, zone := Some z\<rparr>)))"
proof (intro conjI)
  show "\<exists>z. extract_zone addr = Inr z \<and> z \<noteq> []"
    by (rule extract_zone_nonempty)
  show "extract_zone None = Inr ''Unknown''"
    by (simp add: extract_zone_def text_truthy_def)
  show "extract_zone (Some '''') = Inr ''Unknown''"
    by (simp add: extract_zone_def text_truthy_def)
  show "(\<exists>a. addr = Some a \<and> (\<forall>p\<in>set (zone_parts a). \<not> is_district_part p))
        \<longrightarrow> extract_zone addr = Inr ''Unknown''"
  proof
    assume "\<exists>a. addr = Some a \<and> (\<forall>p\<in>set (zone_parts a). \<not> is_district_part p)"
    then obtain a where a: "addr = Some a"
      and n: "\<forall>p\<in>set (zone_parts a). \<not> is_district_part p" by blast
    from n have "find is_district_part (zone_parts a) = None" by (simp add: find_None_iff)
    then show "extract_zone addr = Inr ''Unknown''" unfolding a by (rule extract_zone_None)
  qed
  show "\<forall>z. extract_zone addr = Inr z \<and> title r \<noteq> []
        \<longrightarrow> validate_apartment_data
              (asdict (r\<lparr>price_per_night := None, address := None, zone := Some z\<rparr>))"
  proof (intro allI impI)
    fix z assume h: "extract_zone addr = Inr z \<and> title r \<noteq> []"
    with extract_zone_nonempty [of addr] have "z \<noteq> []" by auto
    with h show "validate_apartment_data
              (asdict (r\<lparr>price_per_night := None, address := None, zone := Some z\<rparr>))"
      by (simp add: validate_apartment_data_iff py_get_asdict opt_val_def)
  qed
qed

theorem extract_zone_always_passes_gate_witness:
  "extract_zone (Some ''Rue de Rivoli, Paris'') = Inr ''Unknown''
   \<and> find is_district_part (zone_parts ''Rue de Rivoli, Paris'') = None
   \<and> title zero_price_listing \<noteq> []
   \<and> validate_apartment_data
       (asdict (zero_price_listing\<lparr>price_per_night := None, address := None, zone := Some ''Unknown''\<rparr>))"
proof -
  let ?a = "''Rue de Rivoli, Paris''"
  have p: "\<forall>p\<in>set (zone_parts ?a). \<not> is_district_part p"
    by (simp add: zone_parts_def is_district_part_def py_strip_def is_space_def)
  have t: "title zero_price_listing \<noteq> []" by (simp add: zero_price_listing_def)
  note th = extract_zone_always_passes_gate [of "Some ?a" zero_price_listing]
  from th p have u: "extract_zone (Some ?a) = Inr ''Unknown''" by blast
  from th u t have "validate_apartment_data
       (asdict (zero_price_listing\<lparr>price_per_night := None, address := None, zone := Some ''Unknown''\<rparr>))"
    by blast
  moreover have "find is_district_part (zone_parts ?a) = None"
    using p by (simp only: find_None_iff) blast
  ultimately show ?thesis using t u by blast
qed

section \<open>Properties of the fallback extraction\<close>








section \<open>Properties of URL discovery\<close>


















section \<open>Properties of the CSV store\<close>



















section \<open>Properties of the worker\<close>













end
